theory Spec2Isabelle
  imports Complex_Main
begin

section \<open>Conventions\<close>

text \<open>
  The program is the class \<open>FarmViewer\<close> of \<open>main.js\<close>. JavaScript numbers are
  modelled as the real numbers they denote (type \<open>real\<close>): sums, products, comparisons,
  \<open>Math.max\<close>, \<open>Math.min\<close> and \<open>Math.sqrt\<close> are the exact operations, and
  \<open>Math.PI\<close> is \<open>pi\<close>. The rounding of IEEE doubles is left out, except in
  \<open>normalizeJoystickInput\<close>, where it is a parameter of the model. A division
  whose JavaScript result is not a finite number (a zero denominator) is written out as a case
  of its own wherever the source divides by a variable.

  The rendering engine (Babylon.js) and the browser are collaborators outside the repository.
  What they answer is an input of the model: the outcome of each \<open>fetch\<close> and of the mesh
  import, the bounding box the engine reports for a mesh handle, the vectors returned by
  \<open>getDirection\<close>, the values of \<open>Math.random\<close>. Awaited promises are taken to settle,
  and the engine's constructors and setters are taken not to throw. A JavaScript exception
  is the \<open>Inl\<close> side of a sum; a method's mutation of \<open>this\<close> is the state it returns.
\<close>

section \<open>Asset resolver\<close>

text \<open>
  \<open>fetch(url, {method: 'HEAD'})\<close> settles in one of three ways: a response whose
  \<open>ok\<close> flag is set, a response whose flag is not set, or a rejection (network error),
  which the \<open>try\<close>/\<open>catch\<close> inside the loop turns into \<open>continue\<close>.
\<close>

datatype probe = ResponseOk | ResponseNotOk | FetchRejected

definition possibleNames :: "string \<Rightarrow> string list" where
  "possibleNames terrainName =
     [''terrain.obj'', terrainName @ ''.obj'', ''Geordie.obj'',
      ''model.obj'', ''mesh.obj'', ''farm.obj'']"

definition assetUrl :: "string \<Rightarrow> string \<Rightarrow> string" where
  "assetUrl terrainName fileName = ''./assets/'' @ terrainName @ ''/'' @ fileName"

text \<open>The \<open>for (const fileName of possibleNames)\<close> loop; \<open>None\<close> when it runs to its end.\<close>

fun findObjFile_loop :: "(string \<Rightarrow> probe) \<Rightarrow> string \<Rightarrow> string list \<Rightarrow> string option" where
  "findObjFile_loop fetch terrainName [] = None"
| "findObjFile_loop fetch terrainName (fileName # rest) =
     (case fetch (assetUrl terrainName fileName) of
        ResponseOk \<Rightarrow> Some fileName
      | ResponseNotOk \<Rightarrow> findObjFile_loop fetch terrainName rest
      | FetchRejected \<Rightarrow> findObjFile_loop fetch terrainName rest)"

definition findObjFile :: "(string \<Rightarrow> probe) \<Rightarrow> string \<Rightarrow> string" where
  "findObjFile fetch terrainName =
     (case findObjFile_loop fetch terrainName (possibleNames terrainName) of
        Some fileName \<Rightarrow> fileName
      | None \<Rightarrow> terrainName @ ''.obj'')"

text \<open>A probe environment in which every rejected request is answered "not ok" instead.\<close>

definition rejectedAsMissing :: "(string \<Rightarrow> probe) \<Rightarrow> string \<Rightarrow> probe" where
  "rejectedAsMissing fetch url = (if fetch url = FetchRejected then ResponseNotOk else fetch url)"

definition allProbesRejected :: "string \<Rightarrow> probe" where
  "allProbesRejected url = FetchRejected"


text \<open>
  A terrain directory that holds only the two legacy files \<open>Geordie.obj\<close> and
  \<open>farm.obj\<close>; the probe of \<open>terrain.obj\<close> is rejected.
\<close>

definition onlyLegacyFiles :: "string \<Rightarrow> probe" where
  "onlyLegacyFiles url =
     (if url = ''./assets/BlockAB/terrain.obj'' then FetchRejected
      else if url = ''./assets/BlockAB/Geordie.obj'' then ResponseOk
      else if url = ''./assets/BlockAB/farm.obj'' then ResponseOk
      else ResponseNotOk)"


section \<open>Scene data\<close>

record vec3 =
  vec_x :: real
  vec_y :: real
  vec_z :: real

definition Vector3 :: "real \<Rightarrow> real \<Rightarrow> real \<Rightarrow> vec3" where
  "Vector3 a b c = \<lparr>vec_x = a, vec_y = b, vec_z = c\<rparr>"

definition Zero :: vec3 where
  "Zero = Vector3 0 0 0"

definition add :: "vec3 \<Rightarrow> vec3 \<Rightarrow> vec3" where
  "add u v = Vector3 (vec_x u + vec_x v) (vec_y u + vec_y v) (vec_z u + vec_z v)"

definition scale :: "vec3 \<Rightarrow> real \<Rightarrow> vec3" where
  "scale u k = Vector3 (vec_x u * k) (vec_y u * k) (vec_z u * k)"

definition vlength :: "vec3 \<Rightarrow> real" where
  "vlength u = sqrt (vec_x u * vec_x u + vec_y u * vec_y u + vec_z u * vec_z u)"

record bounding_box =
  minimum :: vec3
  maximum :: vec3

record standardMaterial =
  backFaceCulling :: bool

text \<open>
  A mesh object of the scene. \<open>boundingBox\<close> is what the engine answers to
  \<open>getBoundingInfo().boundingBox\<close> on this very object. Mesh objects are shared by
  reference (\<open>this.farmMesh\<close> and \<open>result.meshes[0]\<close> may be one object), so the scene
  is a store: a list of mesh objects, and a reference is an index into it.
\<close>

record mesh =
  name :: string
  parent :: "nat option"
  checkCollisions :: bool
  material :: "standardMaterial option"
  boundingBox :: bounding_box

datatype importOutcome =
    ImportRejected
  | ImportResolved "mesh list option"

text \<open>
  The collaborators, as far as the loader and the spawn placement consult them:
  the answers to the HEAD requests; the outcome of \<open>ImportMeshAsync\<close> for a directory and
  a file name (a rejection, or a result whose \<open>meshes\<close> is missing or a list of new mesh
  objects); the bounding box reported for an object just built by
  \<open>new BABYLON.Mesh(name, scene)\<close>; the successive values of \<open>Math.random()\<close>; and
  whether an object built by \<open>new BABYLON.UniversalCamera\<close> has a \<open>setTarget\<close> method.
\<close>

record engine =
  headRequest :: "string \<Rightarrow> probe"
  importMesh :: "string \<Rightarrow> string \<Rightarrow> importOutcome"
  emptyMeshBox :: bounding_box
  random :: "nat \<Rightarrow> real"
  universalCameraSetTarget :: bool

record camera =
  hasSetTarget :: bool
  position :: vec3
  rotation :: vec3
  target :: vec3
  radius :: real

record joystickState =
  stick_x :: real
  stick_y :: real
  active :: bool

record mobileInput =
  movement :: joystickState
  look :: joystickState
  verticalUp :: bool
  verticalDown :: bool

text \<open>The fields of \<open>FarmViewer\<close> that the modelled methods read or write.\<close>

record viewer =
  sceneMeshes :: "mesh list"
  camera :: "camera option"
  farmMesh :: "nat option"
  keys :: "string \<Rightarrow> bool"
  isPointerLocked :: bool
  isMobile :: bool
  mobileInput :: mobileInput
  lastTouch :: "(real \<times> real) option"
  terrainName :: string
  moveSpeed :: real
  mouseSensitivity :: real
  playerHeight :: real
  verticalSpeed :: real
  terrainMinY :: real

datatype error = TypeError | LoadError string

text \<open>The constructor's field values; \<open>detectMobile()\<close> is a fact of the browser.\<close>

definition newFarmViewer :: "bool \<Rightarrow> viewer" where
  "newFarmViewer mobile =
     \<lparr>sceneMeshes = [], camera = None, farmMesh = None, keys = (\<lambda>k. False),
      isPointerLocked = False, isMobile = mobile,
      mobileInput = \<lparr>movement = \<lparr>stick_x = 0, stick_y = 0, active = False\<rparr>,
                     look = \<lparr>stick_x = 0, stick_y = 0, active = False\<rparr>,
                     verticalUp = False, verticalDown = False\<rparr>,
      lastTouch = None, terrainName = ''BlockAB'',
      moveSpeed = 8 / 100, mouseSensitivity = 2 / 1000, playerHeight = 18 / 10,
      verticalSpeed = 5 / 100, terrainMinY = - 5\<rparr>"

section \<open>Terrain loader\<close>

text \<open>\<open>mesh.parent = this.farmMesh\<close> on the object at index \<open>h\<close>.\<close>

definition setParent :: "nat \<Rightarrow> nat \<Rightarrow> mesh list \<Rightarrow> mesh list" where
  "setParent p h ms = ms[h := (ms ! h)\<lparr>parent := Some p\<rparr>]"

text \<open>The body of the second \<open>forEach\<close>: collisions on; culling off when there is a material.\<close>

definition process :: "mesh \<Rightarrow> mesh" where
  "process m0 =
     (let m = m0\<lparr>checkCollisions := True\<rparr>
      in case material m of
           None \<Rightarrow> m
         | Some mat \<Rightarrow> m\<lparr>material := Some (mat\<lparr>backFaceCulling := False\<rparr>)\<rparr>)"

definition processMesh :: "nat \<Rightarrow> mesh list \<Rightarrow> mesh list" where
  "processMesh h ms = ms[h := process (ms ! h)]"

text \<open>
  The object built by \<open>new BABYLON.Mesh("terrainParent", this.scene)\<close>: no parent, no
  material, collisions not enabled, and the box the engine reports for such an object.
  The engine's \<open>getBoundingInfo\<close> describes the geometry of the object it is called on and
  leaves the object's children out (the hierarchy is covered by another call,
  \<open>getHierarchyBoundingVectors\<close>, which the source does not use); so the assignments
  \<open>mesh.parent = this.farmMesh\<close> change the children and not the box of the parent.
\<close>

definition newMesh :: "engine \<Rightarrow> string \<Rightarrow> mesh" where
  "newMesh e n =
     \<lparr>name = n, parent = None, checkCollisions = False, material = None,
      boundingBox = emptyMeshBox e\<rparr>"

text \<open>
  The \<open>try\<close> block of \<open>loadTerrain\<close>. \<open>Inl\<close> is an exception reaching the
  \<open>catch\<close>. A resolved import has put its meshes into the scene: they are appended to the
  store, and \<open>result.meshes\<close> is the list \<open>hs\<close> of their indices.
\<close>

definition loadTerrain_try :: "engine \<Rightarrow> viewer \<Rightarrow> error + viewer" where
  "loadTerrain_try e s =
     (let objFileName = findObjFile (headRequest e) (terrainName s) in
      if objFileName = [] then Inl (LoadError ''No .obj file found'')
      else
        case importMesh e (''./assets/'' @ terrainName s @ ''/'') objFileName of
          ImportRejected \<Rightarrow> Inl (LoadError ''import failed'')
        | ImportResolved None \<Rightarrow> Inl (LoadError ''No meshes found'')
        | ImportResolved (Some meshes) \<Rightarrow>
            if length meshes > 0 then
              (let base = length (sceneMeshes s);
                   hs = [base ..< base + length meshes];
                   scene1 = sceneMeshes s @ meshes;
                   (farm, scene2) =
                     (if length meshes = 1 then (hs ! 0, scene1)
                      else (length scene1,
                            fold (setParent (length scene1)) hs
                              (scene1 @ [newMesh e ''terrainParent''])));
                   box = boundingBox (scene2 ! farm);
                   floor = vec_y (minimum box) - 1
               in Inr (s\<lparr>sceneMeshes := fold processMesh hs scene2,
                         farmMesh := Some farm,
                         terrainMinY := floor\<rparr>))
            else Inl (LoadError ''No meshes found''))"

subsection \<open>Placeholder terrain\<close>

text \<open>
  The vertex positions of \<open>CreateGround\<close> with the given width, height and number of
  subdivisions, as the flat array \<open>getVerticesData(PositionKind)\<close> returns: one
  \<open>(x, 0, z)\<close> triple per grid point. This is the engine's mesh builder, not repository code.
\<close>

definition groundPositions :: "real \<Rightarrow> real \<Rightarrow> nat \<Rightarrow> real list" where
  "groundPositions w h n =
     concat (map (\<lambda>row.
       concat (map (\<lambda>col. [real col * w / real n - w / 2, 0,
                            real (n - row) * h / real n - h / 2])
                 [0 ..< Suc n]))
       [0 ..< Suc n])"

text \<open>
  \<open>for (let i = 1; i < positions.length; i += 3) positions[i] = Math.random() * 3\<close>;
  \<open>k\<close> counts the calls of \<open>Math.random\<close>.
\<close>

function perturb_loop :: "(nat \<Rightarrow> real) \<Rightarrow> nat \<Rightarrow> nat \<Rightarrow> real list \<Rightarrow> real list" where
  "perturb_loop rnd k i positions =
     (if i < length positions
      then perturb_loop rnd (Suc k) (i + 3) (positions[i := rnd k * 3])
      else positions)"
  by pat_completeness auto
termination
  by (relation "measure (\<lambda>(rnd, k, i, positions). length positions - i)") auto

declare perturb_loop.simps [simp del]

text \<open>
  The box the engine derives from position data when \<open>setVerticesData\<close> stores it:
  the componentwise least and greatest coordinates of the vertices.
\<close>

fun vertices :: "real list \<Rightarrow> vec3 list" where
  "vertices (a # b # c # rest) = Vector3 a b c # vertices rest"
| "vertices _ = []"

definition extent :: "real list \<Rightarrow> bounding_box" where
  "extent positions =
     (case vertices positions of
        [] \<Rightarrow> \<lparr>minimum = Zero, maximum = Zero\<rparr>
      | v # vs \<Rightarrow>
          \<lparr>minimum = Vector3 (fold min (map vec_x vs) (vec_x v))
                              (fold min (map vec_y vs) (vec_y v))
                              (fold min (map vec_z vs) (vec_z v)),
           maximum = Vector3 (fold max (map vec_x vs) (vec_x v))
                              (fold max (map vec_y vs) (vec_y v))
                              (fold max (map vec_z vs) (vec_z v))\<rparr>)"

text \<open>
  \<open>createPlaceholderTerrain\<close>: a ground of 30 by 30 with 8 subdivisions whose heights are
  replaced by \<open>Math.random() * 3\<close>, then a new \<open>StandardMaterial\<close> (culling is on in a
  new material) and collisions. The method assigns \<open>this.farmMesh\<close> and no other field
  of the viewer; \<open>terrainMinY\<close> is not written.
\<close>

definition createPlaceholderTerrain :: "engine \<Rightarrow> viewer \<Rightarrow> viewer" where
  "createPlaceholderTerrain e s =
     (let positions = perturb_loop (random e) 0 1 (groundPositions 30 30 8);
          ground = \<lparr>name = ''placeholderTerrain'', parent = None, checkCollisions = False,
                    material = None, boundingBox = extent positions\<rparr>;
          ground = ground\<lparr>material := Some \<lparr>backFaceCulling = True\<rparr>\<rparr>;
          ground = ground\<lparr>checkCollisions := True\<rparr>
      in s\<lparr>sceneMeshes := sceneMeshes s @ [ground],
           farmMesh := Some (length (sceneMeshes s))\<rparr>)"

text \<open>
  \<open>loadTerrain\<close>: whatever reaches the \<open>catch\<close> is logged and replaced by the
  placeholder. The function has no other exit than its normal end.
\<close>

definition loadTerrain :: "engine \<Rightarrow> viewer \<Rightarrow> error + viewer" where
  "loadTerrain e s =
     (case loadTerrain_try e s of
        Inr s' \<Rightarrow> Inr s'
      | Inl err \<Rightarrow> Inr (createPlaceholderTerrain e s))"

section \<open>Spawn placement\<close>

text \<open>
  \<open>setupFirstPersonCamera\<close> replaces the overview camera by an object built with
  \<open>new BABYLON.UniversalCamera("firstPersonCamera", new Vector3(0, playerHeight, 10), scene)\<close>
  and at once calls \<open>this.camera.setTarget(BABYLON.Vector3.Zero())\<close> on it. Calling a
  method that an object does not have, or any method on \<open>null\<close>, raises a TypeError.
  The new orientation that the engine derives from the target is not modelled; the field
  \<open>target\<close> records the last argument of \<open>setTarget\<close>.
\<close>

definition setupFirstPersonCamera :: "engine \<Rightarrow> viewer \<Rightarrow> error + viewer" where
  "setupFirstPersonCamera e s =
     (case camera s of
        None \<Rightarrow> Inl TypeError
      | Some arc \<Rightarrow>
          (let cam = \<lparr>hasSetTarget = universalCameraSetTarget e,
                      position = Vector3 0 (playerHeight s) 10,
                      rotation = Zero, target = Zero, radius = 0\<rparr>
           in if hasSetTarget cam
              then Inr (s\<lparr>camera := Some (cam\<lparr>target := Zero\<rparr>)\<rparr>)
              else Inl TypeError))"

text \<open>
  \<open>createInitialCamera\<close>: the overview camera built by
  \<open>new BABYLON.ArcRotateCamera("arcCamera", -Math.PI / 2, Math.PI / 2.2, 50, Vector3.Zero(), scene)\<close>.
  It orbits its target at the given angles and radius.
\<close>

definition createInitialCamera :: "viewer \<Rightarrow> viewer" where
  "createInitialCamera s =
     s\<lparr>camera := Some \<lparr>hasSetTarget = True,
                          position = Vector3 0 (50 * cos (pi / (22 / 10)))
                                               (- (50 * sin (pi / (22 / 10)))),
                          rotation = Zero, target = Zero, radius = 50\<rparr>\<rparr>"

definition boxCenter :: "bounding_box \<Rightarrow> vec3" where
  "boxCenter b =
     Vector3 ((vec_x (minimum b) + vec_x (maximum b)) / 2)
             ((vec_y (minimum b) + vec_y (maximum b)) / 2)
             ((vec_z (minimum b) + vec_z (maximum b)) / 2)"

definition boxSize :: "bounding_box \<Rightarrow> vec3" where
  "boxSize b =
     Vector3 (vec_x (maximum b) - vec_x (minimum b))
             (vec_y (maximum b) - vec_y (minimum b))
             (vec_z (maximum b) - vec_z (minimum b))"

text \<open>The position assigned in the \<open>else\<close> branch of \<open>positionCameraForTerrain\<close>.\<close>

definition firstPersonSpawn :: "real \<Rightarrow> bounding_box \<Rightarrow> vec3" where
  "firstPersonSpawn height b =
     Vector3 (vec_x (boxCenter b))
             (max (vec_y (boxCenter b) + height) (vec_y (maximum b) + height))
             (vec_z (boxCenter b) + max (vec_z (boxSize b) * (4 / 10)) 10)"

text \<open>
  \<open>positionCameraForTerrain\<close>. The branch is chosen by \<open>if (this.camera.setTarget)\<close>:
  whether the camera object has a \<open>setTarget\<close> method.
\<close>

definition positionCameraForTerrain :: "viewer \<Rightarrow> error + viewer" where
  "positionCameraForTerrain s =
     (case farmMesh s of
        None \<Rightarrow> Inr s
      | Some farm \<Rightarrow>
          (let b = boundingBox (sceneMeshes s ! farm);
               center = boxCenter b;
               size = boxSize b
           in case camera s of
                None \<Rightarrow> Inl TypeError
              | Some cam \<Rightarrow>
                  if hasSetTarget cam
                  then Inr (s\<lparr>camera := Some (cam\<lparr>target := center,
                                   radius := max (vec_x size) (vec_z size) * (15 / 10)\<rparr>)\<rparr>)
                  else Inr (s\<lparr>camera := Some (cam\<lparr>position :=
                                   firstPersonSpawn (playerHeight s) b\<rparr>)\<rparr>)))"

text \<open>
  The two consecutive steps of \<open>init\<close> that place the first-person camera:
  \<open>this.setupFirstPersonCamera(); this.positionCameraForTerrain();\<close>
\<close>

definition placeFirstPersonCamera :: "engine \<Rightarrow> viewer \<Rightarrow> error + viewer" where
  "placeFirstPersonCamera e s =
     (case setupFirstPersonCamera e s of
        Inl err \<Rightarrow> Inl err
      | Inr s1 \<Rightarrow> positionCameraForTerrain s1)"

section \<open>Per-frame movement\<close>

text \<open>The accumulation of \<open>movement\<close> from the keys W, S, A, D and the movement joystick.\<close>

definition horizontalMovement :: "vec3 \<Rightarrow> vec3 \<Rightarrow> viewer \<Rightarrow> vec3" where
  "horizontalMovement forward right s =
     (let mv = Zero;
          mv = (if keys s ''w'' then add mv (scale forward (moveSpeed s)) else mv);
          mv = (if keys s ''s'' then add mv (scale forward (- moveSpeed s)) else mv);
          mv = (if keys s ''a'' then add mv (scale right (- moveSpeed s)) else mv);
          mv = (if keys s ''d'' then add mv (scale right (moveSpeed s)) else mv);
          mv = (if isMobile s \<and> active (movement (mobileInput s))
                then add mv (add (scale forward (stick_y (movement (mobileInput s)) * moveSpeed s))
                                 (scale right (stick_x (movement (mobileInput s)) * moveSpeed s)))
                else mv)
      in mv)"

text \<open>The accumulation of \<open>verticalMovement\<close> from Q, E and the two mobile buttons.\<close>

definition verticalMovement :: "viewer \<Rightarrow> real" where
  "verticalMovement s =
     (let v = 0;
          v = (if keys s ''q'' then v - verticalSpeed s
               else if isMobile s \<and> verticalDown (mobileInput s)
                    then v - verticalSpeed s * (5 / 10) else v);
          v = (if keys s ''e'' then v + verticalSpeed s
               else if isMobile s \<and> verticalUp (mobileInput s)
                    then v + verticalSpeed s * (5 / 10) else v)
      in v)"

text \<open>
  \<open>if (movement.length() > 0) { movement.y = 0; position = position.add(movement) }\<close>
\<close>

definition zeroY :: "vec3 \<Rightarrow> vec3" where
  "zeroY mv = mv\<lparr>vec_y := 0\<rparr>"

definition applyHorizontal :: "vec3 \<Rightarrow> camera \<Rightarrow> camera" where
  "applyHorizontal mv cam =
     (if vlength mv > 0 then cam\<lparr>position := add (position cam) (zeroY mv)\<rparr> else cam)"

text \<open>
  \<open>if (verticalMovement !== 0) { newY = position.y + verticalMovement; ... }\<close> with the
  floor \<open>terrainMinY + playerHeight\<close>.
\<close>

definition applyVertical :: "real \<Rightarrow> real \<Rightarrow> camera \<Rightarrow> camera" where
  "applyVertical v floorLine cam =
     (if v \<noteq> 0 then
        (let newY = vec_y (position cam) + v
         in if newY \<ge> floorLine
            then cam\<lparr>position := (position cam)\<lparr>vec_y := newY\<rparr>\<rparr>
            else cam\<lparr>position := (position cam)\<lparr>vec_y := floorLine\<rparr>\<rparr>)
      else cam)"

text \<open>
  \<open>updateMovement\<close>. \<open>forward\<close> and \<open>right\<close> are the engine's answers to
  \<open>camera.getDirection(Vector3.Forward())\<close> and \<open>camera.getDirection(Vector3.Right())\<close>.
\<close>

definition updateMovement :: "vec3 \<Rightarrow> vec3 \<Rightarrow> viewer \<Rightarrow> viewer" where
  "updateMovement forward right s =
     (case camera s of
        None \<Rightarrow> s
      | Some cam \<Rightarrow>
          (let mv = horizontalMovement forward right s;
               v = verticalMovement s;
               cam = applyHorizontal mv cam;
               cam = applyVertical v (terrainMinY s + playerHeight s) cam
           in s\<lparr>camera := Some cam\<rparr>))"

definition cameraY :: "viewer \<Rightarrow> real option" where
  "cameraY s = map_option (\<lambda>cam. vec_y (position cam)) (camera s)"

section \<open>Look handlers\<close>












section \<open>Joystick normalisation\<close>





section \<open>Inputs used in the statements\<close>

text \<open>The outcome of the import that \<open>loadTerrain\<close> meets in engine \<open>e\<close> and state \<open>s\<close>.\<close>

definition importOf :: "engine \<Rightarrow> viewer \<Rightarrow> importOutcome" where
  "importOf e s =
     importMesh e (''./assets/'' @ terrainName s @ ''/'')
       (findObjFile (headRequest e) (terrainName s))"

text \<open>
  An engine with no network: every probe and the import are rejected. The box of an object
  without geometry is the zero box at the origin, and \<open>Math.random()\<close> answers one half.
\<close>

definition offlineEngine :: engine where
  "offlineEngine =
     \<lparr>headRequest = allProbesRejected,
      importMesh = (\<lambda>directory fileName. ImportRejected),
      emptyMeshBox = \<lparr>minimum = Zero, maximum = Zero\<rparr>,
      random = (\<lambda>k. 1 / 2),
      universalCameraSetTarget = True\<rparr>"

text \<open>An engine in which every probe answers "ok" and the import yields the given meshes.\<close>

definition servingEngine :: "mesh list \<Rightarrow> engine" where
  "servingEngine meshes =
     \<lparr>headRequest = (\<lambda>url. ResponseOk),
      importMesh = (\<lambda>directory fileName. ImportResolved (Some meshes)),
      emptyMeshBox = \<lparr>minimum = Zero, maximum = Zero\<rparr>,
      random = (\<lambda>k. 1 / 2),
      universalCameraSetTarget = True\<rparr>"

text \<open>A mesh as an import delivers it: material with culling on, no parent, no collisions.\<close>

definition part :: "string \<Rightarrow> real \<Rightarrow> real \<Rightarrow> mesh" where
  "part n lo hi =
     \<lparr>name = n, parent = None, checkCollisions = False,
      material = Some \<lparr>backFaceCulling = True\<rparr>,
      boundingBox = \<lparr>minimum = Vector3 (- 20) lo (- 20), maximum = Vector3 20 hi 20\<rparr>\<rparr>"

definition threeParts :: "mesh list" where
  "threeParts = [part ''hill'' (- 3) 2, part ''field'' (- 2) 1,
                 (part ''barn'' (- 1) 4)\<lparr>material := None\<rparr>]"

text \<open>
  In the words of the specification: the least Y of the combined bounding box of all parts
  is the least of the parts' minimum Y.
\<close>

fun combinedMinY :: "mesh list \<Rightarrow> real" where
  "combinedMinY [] = 0"
| "combinedMinY (m # ms) =
     fold min (map (\<lambda>m'. vec_y (minimum (boundingBox m'))) ms) (vec_y (minimum (boundingBox m)))"

text \<open>
  A viewer whose first-person camera is at height \<open>y\<close>, with the floor \<open>f\<close> and the
  listed keys held; and the same on a touch device with both vertical buttons pressed.
\<close>

definition airborne :: "real \<Rightarrow> real \<Rightarrow> string list \<Rightarrow> viewer" where
  "airborne y f held =
     (newFarmViewer False)
       \<lparr>camera := Some \<lparr>hasSetTarget = True, position = Vector3 0 y 10,
                         rotation = Zero, target = Zero, radius = 0\<rparr>,
        keys := (\<lambda>k. k \<in> set held),
        terrainMinY := f\<rparr>"

definition airborneTouch :: "real \<Rightarrow> real \<Rightarrow> string list \<Rightarrow> viewer" where
  "airborneTouch y f held =
     (airborne y f held)
       \<lparr>isMobile := True,
        mobileInput := (mobileInput (airborne y f held))\<lparr>verticalUp := True, verticalDown := True\<rparr>\<rparr>"

text \<open>
  The contribution of one vertical direction to \<open>verticalMovement\<close>: its value when the
  inputs of the other direction are released.
\<close>

definition releaseUp :: "viewer \<Rightarrow> viewer" where
  "releaseUp s =
     s\<lparr>keys := (keys s)(''e'' := False),
       mobileInput := (mobileInput s)\<lparr>verticalUp := False\<rparr>\<rparr>"

definition releaseDown :: "viewer \<Rightarrow> viewer" where
  "releaseDown s =
     s\<lparr>keys := (keys s)(''q'' := False),
       mobileInput := (mobileInput s)\<lparr>verticalDown := False\<rparr>\<rparr>"

definition downContribution :: "viewer \<Rightarrow> real" where
  "downContribution s = verticalMovement (releaseUp s)"

definition upContribution :: "viewer \<Rightarrow> real" where
  "upContribution s = verticalMovement (releaseDown s)"





section \<open>Properties\<close>

subsection \<open>Properties of the resolver\<close>

lemma findObjFile_loop_find:
  "findObjFile_loop fetch tn names =
     List.find (\<lambda>fileName. fetch (assetUrl tn fileName) = ResponseOk) names"
  by (induction names) (auto split: probe.splits)

lemma findObjFile_loop_rejected:
  "findObjFile_loop (rejectedAsMissing fetch) tn names = findObjFile_loop fetch tn names"
  by (induction names) (auto simp: rejectedAsMissing_def split: probe.splits)

lemma findObjFile_loop_member:
  "findObjFile_loop fetch tn names = Some f \<Longrightarrow> f \<in> set names"
  by (induction names) (auto split: probe.splits)

lemma possibleNames_nonempty: "f \<in> set (possibleNames tn) \<Longrightarrow> f \<noteq> []"
  by (auto simp: possibleNames_def)

lemma findObjFile_nonempty: "findObjFile fetch tn \<noteq> []"
  by (auto simp: findObjFile_def split: option.splits
           dest!: findObjFile_loop_member possibleNames_nonempty)

text \<open>
  C4. For every identifier and every way the probes answer, the resolver returns a file
  name: the first of \<open>terrain.obj\<close>, \<open>{id}.obj\<close>, \<open>Geordie.obj\<close>, \<open>model.obj\<close>,
  \<open>mesh.obj\<close>, \<open>farm.obj\<close>, in this order, whose probe of \<open>./assets/{id}/{name}\<close>
  answers "ok"; a rejected probe has the same effect as one answering "not ok"; the result
  is never the empty string; and when no probe answers "ok" the result is \<open>{id}.obj\<close>.
\<close>

theorem findObjFile_total_priority:
  "findObjFile fetch tn =
     (case List.find (\<lambda>fileName. fetch (''./assets/'' @ tn @ ''/'' @ fileName) = ResponseOk)
             [''terrain.obj'', tn @ ''.obj'', ''Geordie.obj'',
              ''model.obj'', ''mesh.obj'', ''farm.obj''] of
        Some fileName \<Rightarrow> fileName
      | None \<Rightarrow> tn @ ''.obj'')
   \<and> findObjFile (rejectedAsMissing fetch) tn = findObjFile fetch tn
   \<and> findObjFile fetch tn \<noteq> []
   \<and> ((\<forall>fileName \<in> set [''terrain.obj'', tn @ ''.obj'', ''Geordie.obj'',
                            ''model.obj'', ''mesh.obj'', ''farm.obj''].
          fetch (''./assets/'' @ tn @ ''/'' @ fileName) \<noteq> ResponseOk)
        \<longrightarrow> findObjFile fetch tn = tn @ ''.obj'')"
proof -
  let ?names = "[''terrain.obj'', tn @ ''.obj'', ''Geordie.obj'',
                 ''model.obj'', ''mesh.obj'', ''farm.obj'']"
  let ?ok = "\<lambda>fileName. fetch (''./assets/'' @ tn @ ''/'' @ fileName) = ResponseOk"
  have loop: "findObjFile_loop fetch tn names = List.find ?ok names" for names
    by (induction names) (auto simp: assetUrl_def split: probe.splits)
  have first: "findObjFile fetch tn =
     (case List.find ?ok ?names of Some fileName \<Rightarrow> fileName | None \<Rightarrow> tn @ ''.obj'')"
    unfolding findObjFile_def loop possibleNames_def ..
  have same: "findObjFile (rejectedAsMissing fetch) tn = findObjFile fetch tn"
    by (simp add: findObjFile_def findObjFile_loop_rejected)
  have fallback: "findObjFile fetch tn = tn @ ''.obj''"
    if "\<forall>fileName \<in> set ?names. \<not> ?ok fileName"
  proof -
    from that have "List.find ?ok ?names = None"
      unfolding find_None_iff by blast
    with first show ?thesis by simp
  qed
  from first same findObjFile_nonempty fallback show ?thesis by blast
qed

theorem findObjFile_total_priority_witness:
  "findObjFile allProbesRejected ''BlockAB'' = ''BlockAB.obj''
   \<and> findObjFile onlyLegacyFiles ''BlockAB'' = ''Geordie.obj''"
proof -
  have none_ok: "\<forall>fileName \<in> set [''terrain.obj'', ''BlockAB'' @ ''.obj'', ''Geordie.obj'',
                            ''model.obj'', ''mesh.obj'', ''farm.obj''].
       allProbesRejected (''./assets/'' @ ''BlockAB'' @ ''/'' @ fileName) \<noteq> ResponseOk"
    by (simp add: allProbesRejected_def)
  with findObjFile_total_priority [of allProbesRejected "''BlockAB''"]
  have fallback: "findObjFile allProbesRejected ''BlockAB'' = ''BlockAB'' @ ''.obj''"
    by blast
  from findObjFile_total_priority [of onlyLegacyFiles "''BlockAB''"]
  have "findObjFile onlyLegacyFiles ''BlockAB'' =
     (case List.find (\<lambda>fileName. onlyLegacyFiles (''./assets/'' @ ''BlockAB'' @ ''/'' @ fileName) = ResponseOk)
             [''terrain.obj'', ''BlockAB'' @ ''.obj'', ''Geordie.obj'',
              ''model.obj'', ''mesh.obj'', ''farm.obj''] of
        Some fileName \<Rightarrow> fileName
      | None \<Rightarrow> ''BlockAB'' @ ''.obj'')"
    by blast
  then have "findObjFile onlyLegacyFiles ''BlockAB'' = ''Geordie.obj''"
    by (simp add: onlyLegacyFiles_def)
  with fallback show ?thesis by simp
qed

subsection \<open>The store after loading\<close>

lemma fold_setParent_length: "length (fold (setParent p) hs ms) = length ms"
  by (induction hs arbitrary: ms) (auto simp: setParent_def)

lemma fold_processMesh_length: "length (fold processMesh hs ms) = length ms"
  by (induction hs arbitrary: ms) (auto simp: processMesh_def)

lemma fold_setParent_nth:
  "distinct hs \<Longrightarrow> k < length ms \<Longrightarrow>
   fold (setParent p) hs ms ! k = (if k \<in> set hs then (ms ! k)\<lparr>parent := Some p\<rparr> else ms ! k)"
proof (induction hs arbitrary: ms)
  case Nil
  then show ?case by simp
next
  case (Cons h hs)
  have len: "k < length (setParent p h ms)" using Cons.prems by (simp add: setParent_def)
  have step: "setParent p h ms ! k = (if k = h then (ms ! k)\<lparr>parent := Some p\<rparr> else ms ! k)"
    using Cons.prems by (simp add: setParent_def nth_list_update)
  from Cons.prems have "distinct hs" "h \<notin> set hs" by auto
  with Cons.IH [OF _ len] step show ?case by auto
qed

lemma fold_processMesh_nth:
  "distinct hs \<Longrightarrow> k < length ms \<Longrightarrow>
   fold processMesh hs ms ! k = (if k \<in> set hs then process (ms ! k) else ms ! k)"
proof (induction hs arbitrary: ms)
  case Nil
  then show ?case by simp
next
  case (Cons h hs)
  have len: "k < length (processMesh h ms)" using Cons.prems by (simp add: processMesh_def)
  have step: "processMesh h ms ! k = (if k = h then process (ms ! k) else ms ! k)"
    using Cons.prems by (simp add: processMesh_def nth_list_update)
  from Cons.prems have "distinct hs" "h \<notin> set hs" by auto
  with Cons.IH [OF _ len] step show ?case by auto
qed

lemma process_fields:
  "checkCollisions (process m)" "parent (process m) = parent m"
  "boundingBox (process m) = boundingBox m" "name (process m) = name m"
  "material (process m) = map_option (\<lambda>mat. mat\<lparr>backFaceCulling := False\<rparr>) (material m)"
  by (auto simp: process_def Let_def split: option.splits)


lemma attach_process_store:
  fixes scene meshes :: "mesh list" and par :: mesh
  defines "base \<equiv> length scene"
  defines "p \<equiv> length scene + length meshes"
  shows "fold processMesh [base ..< base + length meshes]
           (fold (setParent p) [base ..< base + length meshes] ((scene @ meshes) @ [par]))
         = scene @ map (\<lambda>m. process (m\<lparr>parent := Some p\<rparr>)) meshes @ [par]"
    (is "?lhs = ?rhs")
proof (rule nth_equalityI)
  show "length ?lhs = length ?rhs"
    by (simp add: fold_processMesh_length fold_setParent_length)
next
  fix k assume "k < length ?lhs"
  then have k: "k < length ((scene @ meshes) @ [par])"
    by (simp add: fold_processMesh_length fold_setParent_length)
  then have k2: "k < length (fold (setParent p) [base ..< base + length meshes] ((scene @ meshes) @ [par]))"
    by (simp add: fold_setParent_length)
  have "k < base \<or> (base \<le> k \<and> k < p) \<or> k = p"
    using k unfolding base_def p_def by simp arith
  then consider "k < base" | "base \<le> k" "k < p" | "k = p"
    by blast
  then show "?lhs ! k = ?rhs ! k"
  proof cases
    case 1
    then show ?thesis
      using k k2 by (simp add: fold_processMesh_nth fold_setParent_nth base_def nth_append)
  next
    case 2
    then show ?thesis
      using k k2
      by (simp add: fold_processMesh_nth fold_setParent_nth base_def p_def nth_append)
  next
    case 3
    then show ?thesis
      using k k2
      by (simp add: fold_processMesh_nth fold_setParent_nth base_def p_def nth_append)
  qed
qed

lemma loadTerrain_single:
  assumes "importOf e s = ImportResolved (Some [m])"
  shows "loadTerrain e s =
           Inr (s\<lparr>sceneMeshes := sceneMeshes s @ [process m],
                  farmMesh := Some (length (sceneMeshes s)),
                  terrainMinY := vec_y (minimum (boundingBox m)) - 1\<rparr>)"
  using assms
  by (simp add: loadTerrain_def loadTerrain_try_def importOf_def findObjFile_nonempty
                processMesh_def Let_def)

lemma loadTerrain_multi:
  assumes "importOf e s = ImportResolved (Some meshes)" and "length meshes > 1"
  shows "loadTerrain e s =
           Inr (s\<lparr>sceneMeshes :=
                    sceneMeshes s
                    @ map (\<lambda>m. process (m\<lparr>parent := Some (length (sceneMeshes s) + length meshes)\<rparr>)) meshes
                    @ [newMesh e ''terrainParent''],
                  farmMesh := Some (length (sceneMeshes s) + length meshes),
                  terrainMinY := vec_y (minimum (emptyMeshBox e)) - 1\<rparr>)"
proof -
  have box: "boundingBox (fold (setParent (length (sceneMeshes s) + length meshes))
                 [length (sceneMeshes s) ..< length (sceneMeshes s) + length meshes]
                 ((sceneMeshes s @ meshes) @ [newMesh e ''terrainParent''])
               ! (length (sceneMeshes s) + length meshes)) = emptyMeshBox e"
    by (simp add: fold_setParent_nth nth_append newMesh_def)
  have ne: "meshes \<noteq> []" "length meshes \<noteq> Suc 0"
    using assms(2) by auto
  show ?thesis
    using assms(1) ne box attach_process_store [of "sceneMeshes s" meshes "newMesh e ''terrainParent''"]
    by (simp add: loadTerrain_def loadTerrain_try_def importOf_def findObjFile_nonempty Let_def)
qed

lemma loadTerrain_failed:
  assumes "importOf e s = ImportRejected \<or> importOf e s = ImportResolved None
           \<or> importOf e s = ImportResolved (Some [])"
  shows "loadTerrain e s = Inr (createPlaceholderTerrain e s)"
  using assms
  by (auto simp: loadTerrain_def loadTerrain_try_def importOf_def Let_def)


lemma createPlaceholderTerrain_fields:
  "farmMesh (createPlaceholderTerrain e s) = Some (length (sceneMeshes s))"
  "length (sceneMeshes (createPlaceholderTerrain e s)) = Suc (length (sceneMeshes s))"
  "checkCollisions (sceneMeshes (createPlaceholderTerrain e s) ! length (sceneMeshes s))"
  "terrainMinY (createPlaceholderTerrain e s) = terrainMinY s"
  by (simp_all add: createPlaceholderTerrain_def Let_def)

lemma importOutcome_cases:
  obtains (failed) "x = ImportRejected \<or> x = ImportResolved None \<or> x = ImportResolved (Some [])"
        | (single) m where "x = ImportResolved (Some [m])"
        | (multi) meshes where "x = ImportResolved (Some meshes)" "length meshes > 1"
proof (cases x)
  case ImportRejected
  then show ?thesis using failed by simp
next
  case (ImportResolved r)
  show ?thesis
  proof (cases r)
    case None
    with ImportResolved show ?thesis using failed by simp
  next
    case (Some meshes)
    show ?thesis
    proof (cases meshes)
      case Nil
      with Some ImportResolved show ?thesis using failed by simp
    next
      case (Cons m rest)
      show ?thesis
      proof (cases rest)
        case Nil
        with Cons Some ImportResolved show ?thesis using single by simp
      next
        case (Cons m2 rest2)
        with \<open>meshes = m # rest\<close> Some ImportResolved show ?thesis using multi [of meshes] by simp
      qed
    qed
  qed
qed

text \<open>
  C1. \<open>loadTerrain\<close> returns normally for every engine (every outcome of the probes and of
  the import: rejected, no mesh list, an empty list, one mesh, several meshes) and every
  state it starts from. The state it returns holds a terrain entity (\<open>farmMesh\<close> is a
  reference into the scene, not null), at least one mesh with collisions enabled that is the
  entity or a child of it, and a floor \<open>terrainMinY\<close> that is a number: the one held
  before, or the entity's reported minimum Y less one.
\<close>

theorem loadTerrain_total:
  "\<exists>s' farm. loadTerrain e s = Inr s'
      \<and> farmMesh s' = Some farm
      \<and> farm < length (sceneMeshes s')
      \<and> (\<exists>k < length (sceneMeshes s').
            checkCollisions (sceneMeshes s' ! k)
            \<and> (k = farm \<or> parent (sceneMeshes s' ! k) = Some farm))
      \<and> (terrainMinY s' = terrainMinY s
          \<or> terrainMinY s' = vec_y (minimum (boundingBox (sceneMeshes s' ! farm))) - 1)"
proof (cases "importOf e s" rule: importOutcome_cases)
  case failed
  then have "loadTerrain e s = Inr (createPlaceholderTerrain e s)"
    by (rule loadTerrain_failed)
  then show ?thesis
    using createPlaceholderTerrain_fields [of e s] by auto
next
  case (single m)
  have "checkCollisions ((sceneMeshes s @ [process m]) ! length (sceneMeshes s))"
    by (simp add: process_fields)
  then have "\<exists>k < Suc (length (sceneMeshes s)).
               checkCollisions ((sceneMeshes s @ [process m]) ! k)
               \<and> (k = length (sceneMeshes s)
                    \<or> parent ((sceneMeshes s @ [process m]) ! k) = Some (length (sceneMeshes s)))"
    by blast
  then show ?thesis
    using single by (simp add: loadTerrain_single process_fields)
next
  case (multi meshes)
  define p where "p = length (sceneMeshes s) + length meshes"
  define s' where "s' = s\<lparr>sceneMeshes :=
                    sceneMeshes s @ map (\<lambda>m. process (m\<lparr>parent := Some p\<rparr>)) meshes
                    @ [newMesh e ''terrainParent''],
                  farmMesh := Some p,
                  terrainMinY := vec_y (minimum (emptyMeshBox e)) - 1\<rparr>"
  from multi have ne: "meshes \<noteq> []" by auto
  have loaded: "loadTerrain e s = Inr s'"
    using loadTerrain_multi [OF multi] by (simp add: s'_def p_def)
  have farm: "farmMesh s' = Some p" "p < length (sceneMeshes s')"
    by (simp_all add: s'_def p_def)
  have child: "sceneMeshes s' ! length (sceneMeshes s) = process ((meshes ! 0)\<lparr>parent := Some p\<rparr>)"
    using ne by (simp add: s'_def nth_append)
  have "length (sceneMeshes s) < length (sceneMeshes s')"
    by (simp add: s'_def)
  moreover have "checkCollisions (sceneMeshes s' ! length (sceneMeshes s))"
    and "parent (sceneMeshes s' ! length (sceneMeshes s)) = Some p"
    by (simp_all add: child process_fields)
  ultimately have collide: "\<exists>k < length (sceneMeshes s').
      checkCollisions (sceneMeshes s' ! k) \<and> (k = p \<or> parent (sceneMeshes s' ! k) = Some p)"
    by blast
  have "sceneMeshes s' ! p = newMesh e ''terrainParent''"
    by (simp add: s'_def p_def nth_append)
  then have floor: "terrainMinY s' = vec_y (minimum (boundingBox (sceneMeshes s' ! p))) - 1"
    by (simp add: s'_def newMesh_def)
  from loaded farm collide floor show ?thesis by blast
qed

subsection \<open>Floor and composite terrain\<close>

lemma importOf_serving [simp]: "importOf (servingEngine meshes) s = ImportResolved (Some meshes)"
  by (simp add: importOf_def servingEngine_def)

lemma importOf_offline [simp]: "importOf offlineEngine s = ImportRejected"
  by (simp add: importOf_def offlineEngine_def)

lemma placeholder_box_half:
  "vec_y (minimum (extent (perturb_loop (\<lambda>k. 1 / 2) 0 1 (groundPositions 30 30 8)))) = 3 / 2"
  by code_simp

text \<open>
  C3. The import delivers three parts whose minimum Y are \<open>-3\<close>, \<open>-2\<close> and \<open>-1\<close>.
  After \<open>loadTerrain\<close> the entity is the new parent object (index 3), all three parts are
  its children with collisions enabled and culling disabled where there is a material. The
  floor, however, is read from the box of the parent object itself, which has no geometry:
  it is \<open>-1\<close>, while the combined box of the parts gives \<open>-4\<close>.
\<close>

theorem loadTerrain_three_parts:
  "(case loadTerrain (servingEngine threeParts) (newFarmViewer False) of
      Inl err \<Rightarrow> False
    | Inr s' \<Rightarrow>
        farmMesh s' = Some 3
        \<and> map parent (take 3 (sceneMeshes s')) = [Some 3, Some 3, Some 3]
        \<and> map checkCollisions (take 3 (sceneMeshes s')) = [True, True, True]
        \<and> map material (take 3 (sceneMeshes s'))
            = [Some \<lparr>backFaceCulling = False\<rparr>, Some \<lparr>backFaceCulling = False\<rparr>, None]
        \<and> terrainMinY s' = - 1)
   \<and> combinedMinY threeParts - 1 = - 4"
proof -
  have "length threeParts > 1" by (simp add: threeParts_def)
  from loadTerrain_multi [OF importOf_serving this, of "newFarmViewer False"]
  show ?thesis
    by (simp add: threeParts_def part_def process_def newFarmViewer_def servingEngine_def
                  Zero_def Vector3_def)
qed

text \<open>
  C2 (as amended). When the import delivers exactly one mesh, that mesh is the terrain
  entity and the floor after loading is its bounding box's minimum Y less exactly one. When
  the import fails (rejected, no mesh list, empty list) the placeholder is built and the
  floor keeps the value it had before loading.
\<close>

theorem floor_after_loading:
  "(importOf e s = ImportResolved (Some [m]) \<longrightarrow>
      (\<exists>s' farm. loadTerrain e s = Inr s' \<and> farmMesh s' = Some farm
          \<and> boundingBox (sceneMeshes s' ! farm) = boundingBox m
          \<and> terrainMinY s' = vec_y (minimum (boundingBox m)) - 1))
   \<and> (importOf e s = ImportRejected \<or> importOf e s = ImportResolved None
       \<or> importOf e s = ImportResolved (Some []) \<longrightarrow>
      (\<exists>s'. loadTerrain e s = Inr s' \<and> terrainMinY s' = terrainMinY s))"
proof (intro conjI impI)
  assume "importOf e s = ImportResolved (Some [m])"
  then show "\<exists>s' farm. loadTerrain e s = Inr s' \<and> farmMesh s' = Some farm
          \<and> boundingBox (sceneMeshes s' ! farm) = boundingBox m
          \<and> terrainMinY s' = vec_y (minimum (boundingBox m)) - 1"
    by (simp add: loadTerrain_single process_fields)
next
  assume "importOf e s = ImportRejected \<or> importOf e s = ImportResolved None
       \<or> importOf e s = ImportResolved (Some [])"
  then show "\<exists>s'. loadTerrain e s = Inr s' \<and> terrainMinY s' = terrainMinY s"
    by (simp add: loadTerrain_failed createPlaceholderTerrain_fields)
qed

theorem floor_after_loading_witness:
  "(\<exists>s' farm. loadTerrain (servingEngine [part ''terrain'' (- 3) 2]) (newFarmViewer False) = Inr s'
       \<and> farmMesh s' = Some farm
       \<and> boundingBox (sceneMeshes s' ! farm) = boundingBox (part ''terrain'' (- 3) 2)
       \<and> terrainMinY s' = - 4)
   \<and> (\<exists>s'. loadTerrain offlineEngine (newFarmViewer False) = Inr s' \<and> terrainMinY s' = - 5)"
  using floor_after_loading [of "servingEngine [part ''terrain'' (- 3) 2]" "newFarmViewer False"
          "part ''terrain'' (- 3) 2"]
        floor_after_loading [of offlineEngine "newFarmViewer False" "part ''terrain'' (- 3) 2"]
  by (simp add: newFarmViewer_def part_def Vector3_def)

text \<open>
  C2 as stated fails for the placeholder: started from the constructor's state with no
  network, the floor stays at \<open>-5\<close> while the placeholder's minimum Y less one is
  \<open>1 / 2\<close>.
\<close>

theorem floor_placeholder_counterexample:
  "loadTerrain offlineEngine (newFarmViewer False)
     = Inr (createPlaceholderTerrain offlineEngine (newFarmViewer False))
   \<and> farmMesh (createPlaceholderTerrain offlineEngine (newFarmViewer False)) = Some 0
   \<and> terrainMinY (createPlaceholderTerrain offlineEngine (newFarmViewer False)) = - 5
   \<and> vec_y (minimum (boundingBox
        (sceneMeshes (createPlaceholderTerrain offlineEngine (newFarmViewer False)) ! 0))) - 1
      = 1 / 2"
proof -
  have "loadTerrain offlineEngine (newFarmViewer False)
     = Inr (createPlaceholderTerrain offlineEngine (newFarmViewer False))"
    by (simp add: loadTerrain_failed)
  moreover have "farmMesh (createPlaceholderTerrain offlineEngine (newFarmViewer False)) = Some 0"
    and "terrainMinY (createPlaceholderTerrain offlineEngine (newFarmViewer False)) = - 5"
    by (simp_all add: createPlaceholderTerrain_fields newFarmViewer_def)
  moreover have "boundingBox
        (sceneMeshes (createPlaceholderTerrain offlineEngine (newFarmViewer False)) ! 0)
      = extent (perturb_loop (\<lambda>k. 1 / 2) 0 1 (groundPositions 30 30 8))"
    by (simp add: createPlaceholderTerrain_def newFarmViewer_def offlineEngine_def Let_def)
  ultimately show ?thesis
    using placeholder_box_half by simp
qed

subsection \<open>Per-frame movement\<close>

lemma applyHorizontal_y: "vec_y (position (applyHorizontal mv cam)) = vec_y (position cam)"
  by (simp add: applyHorizontal_def zeroY_def add_def Vector3_def)

lemma applyVertical_y:
  "vec_y (position (applyVertical v line cam)) =
     (if v = 0 then vec_y (position cam) else max (vec_y (position cam) + v) line)"
  by (simp add: applyVertical_def Let_def max_def)

lemma updateMovement_cameraY:
  "camera s = Some cam \<Longrightarrow>
   cameraY (updateMovement forward right s) =
     Some (if verticalMovement s = 0 then vec_y (position cam)
           else max (vec_y (position cam) + verticalMovement s) (terrainMinY s + playerHeight s))"
  by (simp add: updateMovement_def cameraY_def Let_def applyVertical_y applyHorizontal_y)

text \<open>
  C5. In a frame whose vertical movement is not zero the camera's new Y is the candidate
  (current Y plus the vertical movement) raised to the line \<open>terrainMinY + playerHeight\<close>
  when it is below it, so it is never below that line. With the floor at \<open>-6\<close>, the
  player height \<open>1.8\<close> and the camera at \<open>-4.2\<close>, every downward movement leaves Y at
  exactly \<open>-4.2\<close>.
\<close>

theorem vertical_floor_clamp:
  "(camera s = Some cam \<and> verticalMovement s \<noteq> 0 \<longrightarrow>
      cameraY (updateMovement forward right s)
        = Some (max (vec_y (position cam) + verticalMovement s) (terrainMinY s + playerHeight s))
      \<and> (\<exists>newY. cameraY (updateMovement forward right s) = Some newY
                 \<and> newY \<ge> terrainMinY s + playerHeight s))
   \<and> (camera s = Some cam \<and> terrainMinY s = - 6 \<and> playerHeight s = 18 / 10
       \<and> vec_y (position cam) = - (42 / 10) \<and> verticalMovement s < 0 \<longrightarrow>
      cameraY (updateMovement forward right s) = Some (- (42 / 10)))"
  by (auto simp: updateMovement_cameraY)

theorem vertical_floor_clamp_witness:
  "verticalMovement (airborne (- (42 / 10)) (- 6) [''q'']) = - (5 / 100)
   \<and> cameraY (updateMovement (Vector3 0 0 1) (Vector3 1 0 0) (airborne (- (42 / 10)) (- 6) [''q'']))
       = Some (- (42 / 10))"
proof -
  let ?s = "airborne (- (42 / 10)) (- 6) [''q'']"
  let ?cam = "\<lparr>hasSetTarget = True, position = Vector3 0 (- (42 / 10)) 10,
               rotation = Zero, target = Zero, radius = 0\<rparr>"
  have v: "verticalMovement ?s = - (5 / 100)"
    by (simp add: verticalMovement_def airborne_def newFarmViewer_def)
  have hyp: "camera ?s = Some ?cam \<and> terrainMinY ?s = - 6 \<and> playerHeight ?s = 18 / 10
       \<and> vec_y (position ?cam) = - (42 / 10) \<and> verticalMovement ?s < 0"
    using v by (simp add: airborne_def newFarmViewer_def Vector3_def)
  with vertical_floor_clamp [of ?s ?cam "Vector3 0 0 1" "Vector3 1 0 0"]
  have "cameraY (updateMovement (Vector3 0 0 1) (Vector3 1 0 0) ?s) = Some (- (42 / 10))"
    by blast
  with v show ?thesis by simp
qed

text \<open>
  C8. Whatever the keys and the movement joystick contribute, the displacement has its Y
  component set to zero before it is added to the position, the horizontal step leaves the
  camera's Y as it was, and so does the whole frame when there is no vertical movement.
\<close>

theorem horizontal_step_keeps_y:
  "vec_y (zeroY (horizontalMovement forward right s)) = 0
   \<and> vec_y (position (applyHorizontal (horizontalMovement forward right s) cam))
       = vec_y (position cam)
   \<and> (camera s = Some cam \<and> verticalMovement s = 0 \<longrightarrow>
        cameraY (updateMovement forward right s) = Some (vec_y (position cam)))"
  by (simp add: zeroY_def applyHorizontal_y updateMovement_cameraY)

theorem horizontal_step_keeps_y_witness:
  "cameraY (updateMovement (Vector3 0 (- 1) 0) (Vector3 1 0 0) (airborne 3 (- 6) [''w'', ''d'']))
     = Some 3"
proof -
  let ?s = "airborne 3 (- 6) [''w'', ''d'']"
  let ?cam = "\<lparr>hasSetTarget = True, position = Vector3 0 3 10,
               rotation = Zero, target = Zero, radius = 0\<rparr>"
  have "camera ?s = Some ?cam \<and> verticalMovement ?s = 0"
    by (simp add: verticalMovement_def airborne_def newFarmViewer_def)
  with horizontal_step_keeps_y [of "Vector3 0 (- 1) 0" "Vector3 1 0 0" ?s ?cam]
  have "cameraY (updateMovement (Vector3 0 (- 1) 0) (Vector3 1 0 0) ?s) = Some (vec_y (position ?cam))"
    by blast
  then show ?thesis by (simp add: Vector3_def)
qed

text \<open>
  C10. The vertical movement is the sum of a down and an up contribution. With Q held the
  down contribution is exactly \<open>- verticalSpeed\<close>, whatever the mobile down button; the
  halved mobile value applies only with Q not held, on a mobile device with the button
  pressed; otherwise the contribution is zero. The same holds for E and the up button.
\<close>

theorem desktop_vertical_priority:
  "verticalMovement s = downContribution s + upContribution s
   \<and> (keys s ''q'' \<longrightarrow> downContribution s = - verticalSpeed s)
   \<and> (\<not> keys s ''q'' \<and> isMobile s \<and> verticalDown (mobileInput s) \<longrightarrow>
        downContribution s = - (verticalSpeed s * (5 / 10)))
   \<and> (\<not> keys s ''q'' \<and> \<not> (isMobile s \<and> verticalDown (mobileInput s)) \<longrightarrow>
        downContribution s = 0)
   \<and> (keys s ''e'' \<longrightarrow> upContribution s = verticalSpeed s)
   \<and> (\<not> keys s ''e'' \<and> isMobile s \<and> verticalUp (mobileInput s) \<longrightarrow>
        upContribution s = verticalSpeed s * (5 / 10))
   \<and> (\<not> keys s ''e'' \<and> \<not> (isMobile s \<and> verticalUp (mobileInput s)) \<longrightarrow>
        upContribution s = 0)"
  by (simp add: verticalMovement_def downContribution_def upContribution_def
                releaseUp_def releaseDown_def)

theorem desktop_vertical_priority_witness:
  "downContribution (airborneTouch 3 (- 6) [''q'']) = - (5 / 100)
   \<and> upContribution (airborneTouch 3 (- 6) [''q'']) = 5 / 200
   \<and> verticalMovement (airborneTouch 3 (- 6) [''q'']) = - (5 / 200)"
proof -
  let ?s = "airborneTouch 3 (- 6) [''q'']"
  have hyp: "keys ?s ''q''" "\<not> keys ?s ''e'' \<and> isMobile ?s \<and> verticalUp (mobileInput ?s)"
    and speed: "verticalSpeed ?s = 5 / 100"
    by (simp_all add: airborneTouch_def airborne_def newFarmViewer_def)
  from desktop_vertical_priority [of ?s] hyp
  have "downContribution ?s = - verticalSpeed ?s"
    and "upContribution ?s = verticalSpeed ?s * (5 / 10)"
    and "verticalMovement ?s = downContribution ?s + upContribution ?s"
    by blast+
  with speed show ?thesis by simp
qed

subsection \<open>Spawn placement\<close>

lemma firstPersonSpawn_formula:
  "vec_x (firstPersonSpawn h b) = vec_x (boxCenter b)"
  "vec_y (firstPersonSpawn h b) = max (vec_y (boxCenter b)) (vec_y (maximum b)) + h"
  "vec_z (firstPersonSpawn h b) - vec_z (boxCenter b) = max ((4 / 10) * vec_z (boxSize b)) 10"
  "vec_z (firstPersonSpawn h b) - vec_z (boxCenter b) \<ge> 10"
  "vec_z (boxSize b) = 40 \<Longrightarrow> vec_z (firstPersonSpawn h b) - vec_z (boxCenter b) = 16"
  by (simp_all add: firstPersonSpawn_def Vector3_def max_def)

lemma positionCameraForTerrain_walking:
  "farmMesh s = Some farm \<Longrightarrow> camera s = Some cam \<Longrightarrow> \<not> hasSetTarget cam \<Longrightarrow>
   positionCameraForTerrain s =
     Inr (s\<lparr>camera := Some (cam\<lparr>position :=
            firstPersonSpawn (playerHeight s) (boundingBox (sceneMeshes s ! farm))\<rparr>)\<rparr>)"
  by (simp add: positionCameraForTerrain_def Let_def)

lemma placeFirstPersonCamera_position:
  assumes "placeFirstPersonCamera e s = Inr s'"
  shows "map_option position (camera s') = Some (Vector3 0 (playerHeight s) 10)"
  using assms
  by (auto simp: placeFirstPersonCamera_def setupFirstPersonCamera_def
                 positionCameraForTerrain_def Let_def
           split: option.splits if_splits sum.splits)

text \<open>
  C7. The start-up sequence on a terrain whose box spans \<open>-20 .. 20\<close> in X and Z and
  \<open>0 .. 4\<close> in Y (depth 40). The position of the claim is \<open>(0, 5.8, 16)\<close>; the camera
  that \<open>setupFirstPersonCamera\<close> builds has a \<open>setTarget\<close> method (the method is called
  on it right after construction), so \<open>positionCameraForTerrain\<close> takes its first branch
  and the camera stays where it was built, at \<open>(0, 1.8, 10)\<close>.
\<close>

theorem firstPerson_spawn_not_applied:
  "(case loadTerrain (servingEngine [part ''terrain'' 0 4]) (createInitialCamera (newFarmViewer False)) of
      Inl err \<Rightarrow> False
    | Inr s1 \<Rightarrow>
        (case placeFirstPersonCamera (servingEngine [part ''terrain'' 0 4]) s1 of
           Inl err \<Rightarrow> False
         | Inr s2 \<Rightarrow>
             farmMesh s1 = Some 0
             \<and> vec_z (boxSize (boundingBox (sceneMeshes s1 ! 0))) = 40
             \<and> firstPersonSpawn (playerHeight s1) (boundingBox (sceneMeshes s1 ! 0))
                 = Vector3 0 (58 / 10) 16
             \<and> map_option position (camera s2) = Some (Vector3 0 (18 / 10) 10)))"
  unfolding loadTerrain_single [OF importOf_serving]
  by (simp add: createInitialCamera_def newFarmViewer_def
        placeFirstPersonCamera_def setupFirstPersonCamera_def positionCameraForTerrain_def
        servingEngine_def part_def process_def firstPersonSpawn_def boxCenter_def boxSize_def
        Vector3_def Let_def)

subsection \<open>Joystick normalisation\<close>



















subsection \<open>Pitch clamp\<close>


















subsection \<open>The box of the placeholder\<close>

lemma perturb_loop_length: "length (perturb_loop rnd k i ps) = length ps"
proof (induction rnd k i ps rule: perturb_loop.induct)
  case (1 rnd k i positions)
  show ?case
  proof (cases "i < length positions")
    case True
    with "1.IH" show ?thesis by (subst perturb_loop.simps) simp
  next
    case False
    then show ?thesis by (subst perturb_loop.simps) simp
  qed
qed

lemma perturb_loop_nth:
  "j < length ps \<Longrightarrow>
   perturb_loop rnd k i ps ! j =
     (if i \<le> j \<and> (j - i) mod 3 = 0 then rnd (k + (j - i) div 3) * 3 else ps ! j)"
proof (induction rnd k i ps rule: perturb_loop.induct)
  case (1 rnd k i positions)
  show ?case
  proof (cases "i < length positions")
    case False
    with "1.prems" show ?thesis by (subst perturb_loop.simps) simp
  next
    case True
    have unfold: "perturb_loop rnd k i positions
        = perturb_loop rnd (Suc k) (i + 3) (positions[i := rnd k * 3])"
      using True by (subst perturb_loop.simps) simp
    have IH: "perturb_loop rnd (Suc k) (i + 3) (positions[i := rnd k * 3]) ! j =
       (if i + 3 \<le> j \<and> (j - (i + 3)) mod 3 = 0
        then rnd (Suc k + (j - (i + 3)) div 3) * 3
        else positions[i := rnd k * 3] ! j)"
      using "1.IH" [OF True] "1.prems" by simp
    consider "j < i" | "j = i" | "i < j" "j < i + 3" | "i + 3 \<le> j"
      by linarith
    then show ?thesis
    proof cases
      case 1
      then show ?thesis using unfold IH "1.prems" by simp
    next
      case 2
      then show ?thesis using unfold IH "1.prems" by simp
    next
      case 3
      then have "j - i = 1 \<or> j - i = 2" by linarith
      then have "(j - i) mod 3 \<noteq> 0" by auto
      with 3 show ?thesis using unfold IH "1.prems" by simp
    next
      case 4
      then obtain m where m: "j = i + 3 + m"
        using le_Suc_ex by blast
      have "j - (i + 3) = m" "j - i = m + 3"
        using m by simp_all
      then have "(j - (i + 3)) mod 3 = (j - i) mod 3"
        and "(j - i) div 3 = Suc ((j - (i + 3)) div 3)"
        by simp_all
      with 4 show ?thesis using unfold IH by simp
    qed
  qed
qed


lemma vertices_y_nonneg:
  "(\<And>j. j < length ps \<Longrightarrow> j mod 3 = 1 \<Longrightarrow> 0 \<le> ps ! j) \<Longrightarrow>
   v \<in> set (vertices ps) \<Longrightarrow> 0 \<le> vec_y v"
proof (induction ps arbitrary: v rule: vertices.induct)
  case (1 a b c rest)
  have b: "0 \<le> b" using "1.prems"(1) [of 1] by simp
  have rest: "0 \<le> rest ! j" if "j < length rest" "j mod 3 = 1" for j
    using "1.prems"(1) [of "j + 3"] that by simp
  from "1.prems"(2) consider "v = Vector3 a b c" | "v \<in> set (vertices rest)" by auto
  then show ?case
  proof cases
    case 1
    with b show ?thesis by (simp add: Vector3_def)
  next
    case 2
    with "1.IH" rest show ?thesis by blast
  qed
qed simp_all

lemma fold_min_nonneg:
  fixes a :: real
  shows "0 \<le> a \<Longrightarrow> (\<And>x. x \<in> set xs \<Longrightarrow> 0 \<le> x) \<Longrightarrow> 0 \<le> fold min xs a"
  by (induction xs arbitrary: a) (simp_all add: min_def)

lemma extent_min_y_nonneg:
  assumes "\<And>j. j < length ps \<Longrightarrow> j mod 3 = 1 \<Longrightarrow> 0 \<le> ps ! j"
  shows "0 \<le> vec_y (minimum (extent ps))"
proof (cases "vertices ps")
  case Nil
  then show ?thesis by (simp add: extent_def Zero_def Vector3_def)
next
  case (Cons v vs)
  have all: "0 \<le> vec_y u" if "u \<in> set (vertices ps)" for u
    using assms that by (rule vertices_y_nonneg)
  have "0 \<le> fold min (map vec_y vs) (vec_y v)"
    using all Cons by (intro fold_min_nonneg) auto
  with Cons show ?thesis by (simp add: extent_def Vector3_def)
qed

lemma placeholder_min_y_nonneg:
  assumes "\<And>k. 0 \<le> random e k"
  shows "0 \<le> vec_y (minimum (boundingBox
           (sceneMeshes (createPlaceholderTerrain e s) ! length (sceneMeshes s))))"
proof -
  let ?ps = "perturb_loop (random e) 0 1 (groundPositions 30 30 8)"
  have "0 \<le> ?ps ! j" if "j < length ?ps" "j mod 3 = 1" for j
  proof -
    have "j = 3 * (j div 3) + j mod 3" by simp
    with that(2) have j: "j = 3 * (j div 3) + 1" by simp
    then have "1 \<le> j" and "j - 1 = 3 * (j div 3)" by linarith+
    then have "1 \<le> j \<and> (j - 1) mod 3 = 0" by simp
    with that(1) have "?ps ! j = random e (0 + (j - 1) div 3) * 3"
      by (simp add: perturb_loop_nth perturb_loop_length)
    with assms show ?thesis by simp
  qed
  then have "0 \<le> vec_y (minimum (extent ?ps))"
    by (rule extent_min_y_nonneg)
  then show ?thesis
    by (simp add: createPlaceholderTerrain_def Let_def)
qed

text \<open>
  Whatever non-negative values \<open>Math.random()\<close> yields, the placeholder's minimum Y is
  not negative; a floor below \<open>-1\<close> before loading, such as the constructor's \<open>-5\<close>,
  is therefore strictly below the placeholder's minimum Y less one afterwards.
\<close>

lemma placeholder_floor_differs:
  assumes "\<And>k. 0 \<le> random e k" and "terrainMinY s < - 1"
  shows "terrainMinY (createPlaceholderTerrain e s)
           < vec_y (minimum (boundingBox
               (sceneMeshes (createPlaceholderTerrain e s) ! length (sceneMeshes s)))) - 1"
  using placeholder_min_y_nonneg [OF assms(1), of s] assms(2)
  by (simp add: createPlaceholderTerrain_fields)

end
